theory Spec2Isabelle
  imports Complex_Main "HOL-Library.Monad_Syntax"
begin

section \<open>Numbers\<close>

text \<open>
  The program computes with JavaScript numbers. The embedding is in exact real
  arithmetic: a finite number is a \<^typ>\<open>real\<close>, \<open>Math.sqrt\<close> is \<^const>\<open>sqrt\<close> and
  \<open>Math.PI\<close> is \<^const>\<open>pi\<close>. Division is the one operation of this program that
  leaves the finite numbers on finite operands: \<open>p / 0\<close> is \<open>Infinity\<close>, \<open>-Infinity\<close>
  or \<open>NaN\<close>. A \<open>number\<close> is therefore a \<^typ>\<open>real option\<close>, where \<open>None\<close> stands for
  any of the three non-finite values. Sums and differences with a non-finite operand
  are non-finite again, and every comparison \<open>-1 < t && t < 1\<close> with a non-finite
  \<open>t\<close> is false.
\<close>

type_synonym number = "real option"

definition divide_js :: "real \<Rightarrow> real \<Rightarrow> number" where
  "divide_js p q = (if q = 0 then None else Some (p / q))"

definition plus_js :: "number \<Rightarrow> number \<Rightarrow> number" where
  "plus_js u v = do { p \<leftarrow> u; q \<leftarrow> v; Some (p + q) }"

definition minus_js :: "number \<Rightarrow> number \<Rightarrow> number" where
  "minus_js u v = do { p \<leftarrow> u; q \<leftarrow> v; Some (p - q) }"

section \<open>Vector2d\<close>

record Vector2d =
  x :: real
  y :: real

definition innerProduct :: "Vector2d \<Rightarrow> Vector2d \<Rightarrow> real" where
  "innerProduct v w = x v * x w + y v * y w"

definition magnitudeSquare :: "Vector2d \<Rightarrow> real" where
  "magnitudeSquare v = innerProduct v v"

definition norm2d :: "Vector2d \<Rightarrow> real" where
  "norm2d v = sqrt (magnitudeSquare v)"

text \<open>
  \<open>normalize\<close> divides both components by the norm. The norm is zero only for the
  zero vector, where both quotients are \<open>0 / 0\<close>: the result has no finite component,
  and is \<open>None\<close> here.
\<close>

definition normalize2d :: "Vector2d \<Rightarrow> Vector2d option" where
  "normalize2d v =
     (let n = norm2d v in
      do { p \<leftarrow> divide_js (x v) n; q \<leftarrow> divide_js (y v) n; Some \<lparr>x = p, y = q\<rparr> })"

definition negate :: "Vector2d \<Rightarrow> Vector2d" where
  "negate v = \<lparr>x = - x v, y = - y v\<rparr>"

definition scaleBy :: "Vector2d \<Rightarrow> real \<Rightarrow> Vector2d" where
  "scaleBy v scalar = \<lparr>x = x v * scalar, y = y v * scalar\<rparr>"

definition add :: "Vector2d \<Rightarrow> Vector2d \<Rightarrow> Vector2d" where
  "add v w = \<lparr>x = x v + x w, y = y v + y w\<rparr>"

text \<open>The two in-place forms return the receiver as updated.\<close>

definition addAssign :: "Vector2d \<Rightarrow> Vector2d \<Rightarrow> Vector2d" where
  "addAssign v w = v\<lparr>x := x v + x w, y := y v + y w\<rparr>"

definition minus2d :: "Vector2d \<Rightarrow> Vector2d \<Rightarrow> Vector2d" where
  "minus2d v w = add v (negate w)"

definition minusAssign :: "Vector2d \<Rightarrow> Vector2d \<Rightarrow> Vector2d" where
  "minusAssign v w = v\<lparr>x := x v - x w, y := y v - y w\<rparr>"

definition distanceTo :: "Vector2d \<Rightarrow> Vector2d \<Rightarrow> real" where
  "distanceTo v w = norm2d (minus2d v w)"

section \<open>QuadraticEquation\<close>

record QuadraticEquation =
  a :: real
  b :: real
  c :: real

definition delta :: "QuadraticEquation \<Rightarrow> real" where
  "delta q = (b q)\<^sup>2 - 4 * a q * c q"

definition numberOfRealRoots :: "QuadraticEquation \<Rightarrow> nat" where
  "numberOfRealRoots q =
     (let d = delta q in if d < 0 then 0 else if d = 0 then 1 else 2)"

definition realRootsExist :: "QuadraticEquation \<Rightarrow> bool" where
  "realRootsExist q = (delta q \<ge> 0)"

definition roots :: "QuadraticEquation \<Rightarrow> number list" where
  "roots q =
     (let rootNum = numberOfRealRoots q in
      if rootNum = 0 then []
      else
        let aa = 2 * a q;
            firstTerm = divide_js (- b q) aa
        in if rootNum = 1 then [firstTerm]
           else
             let d = delta q;
                 lastTerm = divide_js (sqrt d) aa
             in [plus_js firstTerm lastTerm, minus_js firstTerm lastTerm])"

section \<open>Ball\<close>

text \<open>
  A ball owns its two vectors: the constructor allocates both, and no statement of
  the program assigns to \<open>position\<close> or \<open>velocity\<close> (they change through
  \<open>addAssign\<close>, \<open>minusAssign\<close> and component assignment only), so no vector is
  shared between two balls and the fields are embedded by value.
\<close>

record Ball =
  position :: Vector2d
  velocity :: Vector2d
  color :: string
  radius :: real
  coefficientOfMass :: real

definition new_Ball :: "real \<Rightarrow> real \<Rightarrow> real \<Rightarrow> real \<Rightarrow> string \<Rightarrow> real \<Rightarrow> Ball" where
  "new_Ball px py velocityX velocityY col rad =
     \<lparr>position = \<lparr>x = px, y = py\<rparr>,
      velocity = \<lparr>x = velocityX, y = velocityY\<rparr>,
      color = col,
      radius = rad,
      coefficientOfMass = 10\<rparr>"

text \<open>
  \<open>Ball.copy\<close> serialises the ball and constructs a new one from the position, the
  velocity, the color and the radius read back; the constructor sets the mass
  coefficient.
\<close>

definition copy :: "Ball \<Rightarrow> Ball" where
  "copy ball =
     new_Ball (x (position ball)) (y (position ball))
       (x (velocity ball)) (y (velocity ball)) (color ball) (radius ball)"

definition getMass :: "Ball \<Rightarrow> real" where
  "getMass ball = coefficientOfMass ball * pi * (radius ball)\<^sup>2"

definition getMomentum :: "Ball \<Rightarrow> Vector2d" where
  "getMomentum ball = scaleBy (velocity ball) (getMass ball)"

definition getKineticEnergy :: "Ball \<Rightarrow> real" where
  "getKineticEnergy ball = magnitudeSquare (velocity ball) * getMass ball / 2"

definition getCollisionScaleFactor :: "Ball \<Rightarrow> Ball \<Rightarrow> number" where
  "getCollisionScaleFactor b1 b2 = divide_js (2 * getMass b2) (getMass b1 + getMass b2)"

text \<open>
  \<open>update\<close> reads the globals \<open>width\<close> and \<open>height\<close>, which are parameters here.
\<close>

definition update :: "real \<Rightarrow> real \<Rightarrow> Ball \<Rightarrow> Ball" where
  "update width height ball =
     (let s1 = (if x (position ball) + radius ball \<ge> width \<or> x (position ball) + radius ball \<le> 0
                then ball\<lparr>velocity := (velocity ball)\<lparr>x := - x (velocity ball)\<rparr>\<rparr>
                else ball);
          s2 = (if y (position s1) + radius s1 \<ge> height \<or> y (position s1) + radius s1 \<le> 0
                then s1\<lparr>velocity := (velocity s1)\<lparr>y := - y (velocity s1)\<rparr>\<rparr>
                else s1)
      in s2\<lparr>position := addAssign (position s2) (velocity s2)\<rparr>)"

text \<open>
  The methods and functions below mutate the balls they are given. Each one takes
  the balls it can reach and returns them as it leaves them: the receiver first, the
  argument second. Its two balls are different objects, since \<open>collisionDetect\<close>
  skips \<open>this === ball\<close> and the copy made by \<open>collide\<close> is a new object. The result
  is \<open>None\<close> when a velocity would receive a non-finite component.
\<close>

definition collideBy :: "Ball \<Rightarrow> Ball \<Rightarrow> (Ball \<times> Ball) option" where
  "collideBy self ball =
     (let diffPos = minus2d (position self) (position ball);
          diffVel = minus2d (velocity self) (velocity ball)
      in do {
        csf \<leftarrow> getCollisionScaleFactor self ball;
        n \<leftarrow> normalize2d diffPos;
        k \<leftarrow> divide_js (csf * innerProduct diffPos diffVel) (norm2d diffPos);
        Some (self\<lparr>velocity := minusAssign (velocity self) (scaleBy n k)\<rparr>, ball)
      })"

section \<open>deoverlap and collide\<close>

text \<open>
  \<open>deoverlap_qe\<close> is the local \<open>qe\<close> of \<open>deoverlap\<close>, as a function of the two balls
  after the rewind; \<open>deoverlap_advance\<close> is the body of its loop over the roots.
\<close>

definition deoverlap_qe :: "Ball \<Rightarrow> Ball \<Rightarrow> QuadraticEquation" where
  "deoverlap_qe b1 b2 =
     (let dx = minus2d (position b1) (position b2);
          dv = minus2d (velocity b1) (velocity b2)
      in \<lparr>a = magnitudeSquare dv,
          b = innerProduct dx dv,
          c = magnitudeSquare dx - (radius b1 + radius b2)\<rparr>)"

definition deoverlap_advance :: "number \<Rightarrow> Ball \<times> Ball \<Rightarrow> Ball \<times> Ball" where
  "deoverlap_advance rt s =
     (case rt of
        None \<Rightarrow> s
      | Some t \<Rightarrow>
          if -1 < t \<and> t < 1
          then (case s of (b1, b2) \<Rightarrow>
                 (b1\<lparr>position := addAssign (position b1) (scaleBy (velocity b1) t)\<rparr>,
                  b2\<lparr>position := addAssign (position b2) (scaleBy (velocity b2) t)\<rparr>))
          else s)"

definition deoverlap :: "Ball \<Rightarrow> Ball \<Rightarrow> Ball \<times> Ball" where
  "deoverlap b1 b2 =
     (let r1 = b1\<lparr>position := minusAssign (position b1) (velocity b1)\<rparr>;
          r2 = b2\<lparr>position := minusAssign (position b2) (velocity b2)\<rparr>;
          qe = deoverlap_qe r1 r2
      in fold deoverlap_advance (roots qe) (r1, r2))"

definition collide :: "Ball \<Rightarrow> Ball \<Rightarrow> (Ball \<times> Ball) option" where
  "collide b1 b2 =
     (let temp = copy b1 in
      do {
        (b1', b2') \<leftarrow> collideBy b1 b2;
        (b2'', temp') \<leftarrow> collideBy b2' temp;
        Some (b1', b2'')
      })"

section \<open>collisionDetect\<close>

text \<open>
  The global array \<open>balls\<close> is a list and a ball's identity is its index. The state
  is the list and the number of colors drawn so far; \<open>randomRGB\<close> is a parameter
  \<open>rgb\<close>, the sequence of colors it returns. \<open>collisionDetect_body\<close> is the body of
  the loop of \<open>collisionDetect\<close> for the receiver at index \<open>i\<close> and the ball at index
  \<open>j\<close>.
\<close>

definition collisionDetect_body ::
    "(nat \<Rightarrow> string) \<Rightarrow> nat \<Rightarrow> nat \<Rightarrow> Ball list \<times> nat \<Rightarrow> (Ball list \<times> nat) option" where
  "collisionDetect_body rgb i j s =
     (case s of (balls, n) \<Rightarrow>
        if i \<noteq> j then
          let distance = distanceTo (position (balls ! i)) (position (balls ! j)) in
          if distance < radius (balls ! i) + radius (balls ! j) then
            (case deoverlap (balls ! i) (balls ! j) of (b1, b2) \<Rightarrow>
               do {
                 (b1', b2') \<leftarrow> collide b1 b2;
                 let col = rgb n;
                 Some (balls[i := b1'\<lparr>color := col\<rparr>, j := b2'\<lparr>color := col\<rparr>], Suc n)
               })
          else Some s
        else Some s)"

fun collisionDetect_loop ::
    "(nat \<Rightarrow> string) \<Rightarrow> nat \<Rightarrow> nat list \<Rightarrow> Ball list \<times> nat \<Rightarrow> (Ball list \<times> nat) option" where
  "collisionDetect_loop rgb i [] s = Some s"
| "collisionDetect_loop rgb i (j # js) s =
     do { s' \<leftarrow> collisionDetect_body rgb i j s; collisionDetect_loop rgb i js s' }"

definition collisionDetect ::
    "(nat \<Rightarrow> string) \<Rightarrow> nat \<Rightarrow> Ball list \<times> nat \<Rightarrow> (Ball list \<times> nat) option" where
  "collisionDetect rgb i s = collisionDetect_loop rgb i [0..<length (fst s)] s"

section \<open>The update of the specification\<close>

text \<open>
  The velocity update of the collision resolver in the specification's words, in real
  arithmetic with ordinary division: \<open>scaleFactor = 2 * mass(other) / (mass(self) +
  mass(other))\<close>, \<open>diffPos = pos(self) - pos(other)\<close>, \<open>diffVel = vel(self) -
  vel(other)\<close>, and \<open>vel(self) -= normalize(diffPos) * scaleFactor * (diffPos . diffVel)
  / |diffPos|\<close>, where \<open>normalize\<close> scales by \<open>1 / norm\<close>. The value is the velocity of \<open>self\<close>
  after the update.
\<close>

definition spec_resolved_velocity :: "Ball \<Rightarrow> Ball \<Rightarrow> Vector2d" where
  "spec_resolved_velocity self other =
     (let scaleFactor = 2 * getMass other / (getMass self + getMass other);
          diffPos = minus2d (position self) (position other);
          diffVel = minus2d (velocity self) (velocity other);
          normalized = scaleBy diffPos (1 / norm2d diffPos)
      in minus2d (velocity self)
           (scaleBy normalized (scaleFactor * innerProduct diffPos diffVel / norm2d diffPos)))"

text \<open>
  \<open>rewound ball\<close> is the ball one tick of its own velocity back, as the first two
  statements of \<open>deoverlap\<close> leave it. It is used to state what \<open>deoverlap\<close> returns.
\<close>

definition rewound :: "Ball \<Rightarrow> Ball" where
  "rewound ball = ball\<lparr>position := minusAssign (position ball) (velocity ball)\<rparr>"

section \<open>Vectors\<close>

lemma minus2d_sel [simp]: "x (minus2d p q) = x p - x q" "y (minus2d p q) = y p - y q"
  by (simp_all add: minus2d_def add_def negate_def)

lemma scaleBy_sel [simp]: "x (scaleBy v r) = x v * r" "y (scaleBy v r) = y v * r"
  by (simp_all add: scaleBy_def)

lemma add_sel [simp]: "x (add v w) = x v + x w" "y (add v w) = y v + y w"
  by (simp_all add: add_def)

lemma vector_eqI: "x v = x w \<Longrightarrow> y v = y w \<Longrightarrow> v = (w::Vector2d)"
  by simp

lemma distinct_components:
  "p \<noteq> (q::Vector2d) \<Longrightarrow> x p - x q \<noteq> 0 \<or> y p - y q \<noteq> 0"
  by (cases p, cases q) auto

lemma norm2d_zero_iff: "norm2d v = 0 \<longleftrightarrow> x v = 0 \<and> y v = 0"
  by (simp add: norm2d_def magnitudeSquare_def innerProduct_def)

lemma norm2d_minus2d_zero_iff: "norm2d (minus2d p q) = 0 \<longleftrightarrow> p = (q::Vector2d)"
  by (auto simp add: norm2d_zero_iff)

lemma norm2d_minus2d_commute: "norm2d (minus2d p q) = norm2d (minus2d q p)"
proof -
  have "(x p - x q) * (x p - x q) = (x q - x p) * (x q - x p)"
    and "(y p - y q) * (y p - y q) = (y q - y p) * (y q - y p)"
    by (simp_all add: algebra_simps)
  then show ?thesis
    by (simp add: norm2d_def magnitudeSquare_def innerProduct_def)
qed

lemma innerProduct_minus2d_commute:
  "innerProduct (minus2d p q) (minus2d v w) = innerProduct (minus2d q p) (minus2d w v)"
  by (simp add: innerProduct_def algebra_simps)

section \<open>The quadratic solver\<close>

text \<open>
  C6. For coefficients with \<open>a \<noteq> 0\<close>, \<open>numberOfRealRoots\<close> is 0 when
  \<open>delta = b\<^sup>2 - 4ac\<close> is negative, 1 when it is zero and 2 otherwise; \<open>roots\<close> returns
  that many values, all finite: none in the first case, \<open>-b / 2a\<close> in the second, and
  \<open>firstTerm + lastTerm\<close> followed by \<open>firstTerm - lastTerm\<close> in the third, with
  \<open>firstTerm = -b / 2a\<close> and \<open>lastTerm = sqrt delta / 2a\<close>. The three equations of the
  specification have the roots 2 and -2, the root -1, and no root.
\<close>

theorem quadratic_roots:
  assumes "a q \<noteq> 0"
  shows "delta q = (b q)\<^sup>2 - 4 * a q * c q
       \<and> numberOfRealRoots q = (if delta q < 0 then 0 else if delta q = 0 then 1 else 2)
       \<and> length (roots q) = numberOfRealRoots q
       \<and> (numberOfRealRoots q = 1 \<longrightarrow> roots q = [Some (- b q / (2 * a q))])
       \<and> (numberOfRealRoots q = 2 \<longrightarrow>
            roots q = [Some (- b q / (2 * a q) + sqrt (delta q) / (2 * a q)),
                       Some (- b q / (2 * a q) - sqrt (delta q) / (2 * a q))])
       \<and> numberOfRealRoots \<lparr>a = 1, b = 0, c = -4\<rparr> = 2
       \<and> roots \<lparr>a = 1, b = 0, c = -4\<rparr> = [Some 2, Some (-2)]
       \<and> numberOfRealRoots \<lparr>a = 1, b = 2, c = 1\<rparr> = 1
       \<and> roots \<lparr>a = 1, b = 2, c = 1\<rparr> = [Some (-1)]
       \<and> numberOfRealRoots \<lparr>a = 1, b = 0, c = 1\<rparr> = 0
       \<and> roots \<lparr>a = 1, b = 0, c = 1\<rparr> = []"
proof -
  have sixteen: "sqrt 16 = 4"
    using real_sqrt_abs[of 4] by simp
  show ?thesis
    using assms
    by (simp add: numberOfRealRoots_def roots_def Let_def divide_js_def plus_js_def
        minus_js_def delta_def sixteen)
qed

theorem quadratic_roots_witness:
  "a \<lparr>a = 2, b = 2, c = -4\<rparr> \<noteq> 0
   \<and> delta \<lparr>a = 2, b = 2, c = -4\<rparr> = 36
   \<and> numberOfRealRoots \<lparr>a = 2, b = 2, c = -4\<rparr> = 2
   \<and> roots \<lparr>a = 2, b = 2, c = -4\<rparr> = [Some 1, Some (-2)]"
proof -
  have thirtysix: "sqrt 36 = 6"
    using real_sqrt_abs[of 6] by simp
  show ?thesis
    using quadratic_roots[of "\<lparr>a = 2, b = 2, c = -4\<rparr>"]
    by (simp add: thirtysix)
qed

section \<open>Collision resolution\<close>

text \<open>
  The constructor is the only place that sets \<open>coefficientOfMass\<close>, to 10, so every
  ball of the program satisfies \<open>coefficientOfMass ball = 10\<close>; with a radius other than
  zero its mass is positive, and the masses of two such balls do not sum to zero. The
  theorems below ask for what they use: that the ball that is copied has the
  constructor's coefficient, and that the two masses do not sum to zero.
\<close>

lemma constructed_mass_positive:
  "coefficientOfMass ball = 10 \<Longrightarrow> radius ball \<noteq> 0 \<Longrightarrow> 0 < getMass ball"
  by (simp add: getMass_def)

lemma constructed_mass_sum:
  assumes "coefficientOfMass b1 = 10" and "coefficientOfMass b2 = 10" and "radius b1 \<noteq> 0"
  shows "getMass b1 + getMass b2 \<noteq> 0"
proof -
  have "0 < getMass b1"
    using assms(1,3) by (rule constructed_mass_positive)
  moreover have "0 \<le> getMass b2"
    using assms(2) by (simp add: getMass_def)
  ultimately show ?thesis
    by simp
qed

lemma copy_constructed: "coefficientOfMass ball = 10 \<Longrightarrow> copy ball = ball"
  by (simp add: copy_def new_Ball_def)

lemma collideBy_Some:
  assumes "position self \<noteq> position ball" and "getMass self + getMass ball \<noteq> 0"
  shows "collideBy self ball = Some (self\<lparr>velocity := spec_resolved_velocity self ball\<rparr>, ball)"
  using distinct_components[OF assms(1)] assms(2)
  by (auto simp add: collideBy_def Let_def getCollisionScaleFactor_def divide_js_def
      normalize2d_def norm2d_zero_iff spec_resolved_velocity_def minusAssign_def minus2d_def
      add_def negate_def scaleBy_def)

lemma collide_Some:
  assumes "coefficientOfMass b1 = 10" and "position b1 \<noteq> position b2"
    and "getMass b1 + getMass b2 \<noteq> 0"
  shows "collide b1 b2 =
           Some (b1\<lparr>velocity := spec_resolved_velocity b1 b2\<rparr>,
                 b2\<lparr>velocity := spec_resolved_velocity b2 b1\<rparr>)"
proof -
  have first: "collideBy b1 b2 = Some (b1\<lparr>velocity := spec_resolved_velocity b1 b2\<rparr>, b2)"
    using assms(2,3) by (rule collideBy_Some)
  have "position b2 \<noteq> position b1" and "getMass b2 + getMass b1 \<noteq> 0"
    using assms(2,3) by (auto simp add: add.commute)
  then have second:
    "collideBy b2 b1 = Some (b2\<lparr>velocity := spec_resolved_velocity b2 b1\<rparr>, b1)"
    by (rule collideBy_Some)
  show ?thesis
    by (simp add: collide_def copy_constructed[OF assms(1)] first second)
qed

lemma momentum_algebra:
  fixes m1 m2 n :: real
  assumes "m1 + m2 \<noteq> 0" and "n \<noteq> 0"
  shows "(u1 - d * (1 / n) * (2 * m2 / (m1 + m2) * k / n)) * m1
       + (u2 - (- d) * (1 / n) * (2 * m1 / (m2 + m1) * k / n)) * m2
       = u1 * m1 + u2 * m2"
proof -
  have "d * (1 / n) * (2 * m2 / (m1 + m2) * k / n) * m1
      = d * (1 / n) * (2 * m1 / (m2 + m1) * k / n) * m2"
    by (simp add: add.commute)
  then show ?thesis by (simp add: algebra_simps)
qed

lemma resolved_momentum:
  assumes "position b1 \<noteq> position b2" and "getMass b1 + getMass b2 \<noteq> 0"
  shows "add (getMomentum (b1\<lparr>velocity := spec_resolved_velocity b1 b2\<rparr>))
             (getMomentum (b2\<lparr>velocity := spec_resolved_velocity b2 b1\<rparr>))
       = add (getMomentum b1) (getMomentum b2)"
    (is "?after = ?before")
proof -
  define n where "n = norm2d (minus2d (position b1) (position b2))"
  define k where
    "k = innerProduct (minus2d (position b1) (position b2)) (minus2d (velocity b1) (velocity b2))"
  have n: "n \<noteq> 0"
    using assms(1) by (simp add: n_def norm2d_minus2d_zero_iff)
  have n': "norm2d (minus2d (position b2) (position b1)) = n"
    by (simp add: n_def norm2d_minus2d_commute)
  have k': "innerProduct (minus2d (position b2) (position b1))
              (minus2d (velocity b2) (velocity b1)) = k"
    by (simp add: k_def innerProduct_minus2d_commute)
  have mass: "getMass (b1\<lparr>velocity := v\<rparr>) = getMass b1"
    "getMass (b2\<lparr>velocity := v\<rparr>) = getMass b2" for v
    by (simp_all add: getMass_def)
  show ?thesis
  proof (rule vector_eqI)
    show "x ?after = x ?before"
      using momentum_algebra[OF assms(2) n, of "x (velocity b1)"
          "x (position b1) - x (position b2)" k "x (velocity b2)"]
      by (simp add: getMomentum_def mass spec_resolved_velocity_def Let_def n' k'
          n_def[symmetric] k_def[symmetric])
    show "y ?after = y ?before"
      using momentum_algebra[OF assms(2) n, of "y (velocity b1)"
          "y (position b1) - y (position b2)" k "y (velocity b2)"]
      by (simp add: getMomentum_def mass spec_resolved_velocity_def Let_def n' k'
          n_def[symmetric] k_def[symmetric])
  qed
qed

text \<open>
  C3. For two balls at distinct positions, \<open>collide\<close> returns, and the sum of the two
  momenta (mass times velocity) after it is the sum before it. \<open>collide\<close> touches
  nothing but the two balls, so no boundary reflection is involved.
\<close>

theorem collide_conserves_momentum:
  assumes "position b1 \<noteq> position b2"
    and "coefficientOfMass b1 = 10"
    and "getMass b1 + getMass b2 \<noteq> 0"
  shows "\<exists>b1' b2'. collide b1 b2 = Some (b1', b2')
           \<and> add (getMomentum b1') (getMomentum b2') = add (getMomentum b1) (getMomentum b2)"
  using collide_Some[OF assms(2,1,3)] resolved_momentum[OF assms(1,3)] by simp

theorem collide_conserves_momentum_witness:
  "position (new_Ball 100 100 5 3 ''rgb(1,2,3)'' 10) \<noteq> position (new_Ball 112 105 (-2) 4 ''rgb(4,5,6)'' 15)
   \<and> coefficientOfMass (new_Ball 100 100 5 3 ''rgb(1,2,3)'' 10) = 10
   \<and> getMass (new_Ball 100 100 5 3 ''rgb(1,2,3)'' 10)
       + getMass (new_Ball 112 105 (-2) 4 ''rgb(4,5,6)'' 15) \<noteq> 0
   \<and> (\<exists>b1' b2'.
        collide (new_Ball 100 100 5 3 ''rgb(1,2,3)'' 10) (new_Ball 112 105 (-2) 4 ''rgb(4,5,6)'' 15)
          = Some (b1', b2')
        \<and> add (getMomentum b1') (getMomentum b2')
          = add (getMomentum (new_Ball 100 100 5 3 ''rgb(1,2,3)'' 10))
                (getMomentum (new_Ball 112 105 (-2) 4 ''rgb(4,5,6)'' 15)))"
proof -
  have pos: "position (new_Ball 100 100 5 3 ''rgb(1,2,3)'' 10)
      \<noteq> position (new_Ball 112 105 (-2) 4 ''rgb(4,5,6)'' 15)"
    by (simp add: new_Ball_def)
  have coeff: "coefficientOfMass (new_Ball 100 100 5 3 ''rgb(1,2,3)'' 10) = 10"
    by (simp add: new_Ball_def)
  have mass: "getMass (new_Ball 100 100 5 3 ''rgb(1,2,3)'' 10)
      + getMass (new_Ball 112 105 (-2) 4 ''rgb(4,5,6)'' 15) \<noteq> 0"
    by (simp add: new_Ball_def getMass_def)
  show ?thesis
    using pos coeff mass collide_conserves_momentum[OF pos coeff mass] by simp
qed

text \<open>
  C4. \<open>collide\<close> copies \<open>b1\<close> before it changes either ball, and the copy equals \<open>b1\<close>
  in every field. Each side then receives the update of the specification, with the
  scale factor \<open>2 * mass(other) / (mass(self) + mass(other))\<close>: \<open>b1\<close> against \<open>b2\<close>, and
  \<open>b2\<close> against \<open>b1\<close> as it was before the resolution, not as the first update left it.
\<close>

theorem collide_updates_both_from_original:
  assumes "position b1 \<noteq> position b2"
    and "coefficientOfMass b1 = 10"
    and "getMass b1 + getMass b2 \<noteq> 0"
  shows "copy b1 = b1
       \<and> getCollisionScaleFactor b1 b2 = Some (2 * getMass b2 / (getMass b1 + getMass b2))
       \<and> getCollisionScaleFactor b2 b1 = Some (2 * getMass b1 / (getMass b2 + getMass b1))
       \<and> collide b1 b2 =
           Some (b1\<lparr>velocity := spec_resolved_velocity b1 b2\<rparr>,
                 b2\<lparr>velocity := spec_resolved_velocity b2 b1\<rparr>)"
  using collide_Some[OF assms(2,1,3)] copy_constructed[OF assms(2)] assms(3)
  by (simp add: getCollisionScaleFactor_def divide_js_def add.commute)

theorem collide_updates_both_from_original_witness:
  "position (new_Ball 50 60 3 (-1) ''rgb(9,9,9)'' 12) \<noteq> position (new_Ball 60 70 (-4) 2 ''rgb(0,0,0)'' 20)
   \<and> copy (new_Ball 50 60 3 (-1) ''rgb(9,9,9)'' 12) = new_Ball 50 60 3 (-1) ''rgb(9,9,9)'' 12
   \<and> collide (new_Ball 50 60 3 (-1) ''rgb(9,9,9)'' 12) (new_Ball 60 70 (-4) 2 ''rgb(0,0,0)'' 20) =
       Some ((new_Ball 50 60 3 (-1) ''rgb(9,9,9)'' 12)
               \<lparr>velocity := spec_resolved_velocity (new_Ball 50 60 3 (-1) ''rgb(9,9,9)'' 12)
                              (new_Ball 60 70 (-4) 2 ''rgb(0,0,0)'' 20)\<rparr>,
             (new_Ball 60 70 (-4) 2 ''rgb(0,0,0)'' 20)
               \<lparr>velocity := spec_resolved_velocity (new_Ball 60 70 (-4) 2 ''rgb(0,0,0)'' 20)
                              (new_Ball 50 60 3 (-1) ''rgb(9,9,9)'' 12)\<rparr>)"
proof -
  have pos: "position (new_Ball 50 60 3 (-1) ''rgb(9,9,9)'' 12)
      \<noteq> position (new_Ball 60 70 (-4) 2 ''rgb(0,0,0)'' 20)"
    by (simp add: new_Ball_def)
  have coeff: "coefficientOfMass (new_Ball 50 60 3 (-1) ''rgb(9,9,9)'' 12) = 10"
    by (simp add: new_Ball_def)
  have mass: "getMass (new_Ball 50 60 3 (-1) ''rgb(9,9,9)'' 12)
      + getMass (new_Ball 60 70 (-4) 2 ''rgb(0,0,0)'' 20) \<noteq> 0"
    by (simp add: new_Ball_def getMass_def)
  show ?thesis
    using pos collide_updates_both_from_original[OF pos coeff mass] by simp
qed

text \<open>
  C5. Two balls of equal mass, one with velocity \<open>(5, 0)\<close> and one with velocity
  \<open>(-5, 0)\<close>, whose positions differ along \<open>x\<close> only: \<open>collide\<close> leaves the first with
  \<open>(-5, 0)\<close> and the second with \<open>(5, 0)\<close>, and changes nothing else.
\<close>

theorem collide_head_on_swaps:
  assumes "coefficientOfMass b1 = 10"
    and "getMass b1 = getMass b2" and "getMass b1 \<noteq> 0"
    and "velocity b1 = \<lparr>x = 5, y = 0\<rparr>" and "velocity b2 = \<lparr>x = -5, y = 0\<rparr>"
    and "y (position b1) = y (position b2)" and "x (position b1) \<noteq> x (position b2)"
  shows "collide b1 b2 =
           Some (b1\<lparr>velocity := \<lparr>x = -5, y = 0\<rparr>\<rparr>, b2\<lparr>velocity := \<lparr>x = 5, y = 0\<rparr>\<rparr>)"
proof -
  define d where "d = x (position b1) - x (position b2)"
  have d: "d \<noteq> 0"
    using assms(7) by (simp add: d_def)
  have pos: "position b1 \<noteq> position b2"
    using assms(7) by auto
  have mass: "getMass b1 + getMass b2 \<noteq> 0"
    using assms(2,3) by simp
  have n12: "norm2d (minus2d (position b1) (position b2)) = \<bar>d\<bar>"
    using assms(6) by (simp add: norm2d_def magnitudeSquare_def innerProduct_def d_def)
  have n21: "norm2d (minus2d (position b2) (position b1)) = \<bar>d\<bar>"
    using n12 by (simp add: norm2d_minus2d_commute)
  have sf: "2 * getMass b2 / (getMass b1 + getMass b2) = 1"
    "2 * getMass b1 / (getMass b2 + getMass b1) = 1"
    using assms(2,3) by simp_all
  have k12: "innerProduct (minus2d (position b1) (position b2))
               (minus2d (velocity b1) (velocity b2)) = d * 10"
    using assms(4,5) by (simp add: innerProduct_def d_def)
  have k21: "innerProduct (minus2d (position b2) (position b1))
               (minus2d (velocity b2) (velocity b1)) = d * 10"
    using k12 by (simp add: innerProduct_minus2d_commute)
  have "d * d = \<bar>d\<bar> * \<bar>d\<bar>"
    by simp
  then have ten: "d * (1 / \<bar>d\<bar>) * (d * 10 / \<bar>d\<bar>) = 10"
    using d by (simp add: field_simps)
  have x21: "x (position b2) - x (position b1) = - d"
    by (simp add: d_def)
  have "x (spec_resolved_velocity b1 b2) = x (velocity b1) - d * (1 / \<bar>d\<bar>) * (d * 10 / \<bar>d\<bar>)"
    by (simp add: spec_resolved_velocity_def Let_def n12 k12 sf d_def[symmetric])
  then have x1: "x (spec_resolved_velocity b1 b2) = -5"
    by (simp only: ten) (simp add: assms(4))
  have "y (spec_resolved_velocity b1 b2) = y (velocity b1)"
    using assms(6) by (simp add: spec_resolved_velocity_def Let_def)
  then have y1: "y (spec_resolved_velocity b1 b2) = 0"
    by (simp add: assms(4))
  have "x (spec_resolved_velocity b2 b1) = x (velocity b2) + d * (1 / \<bar>d\<bar>) * (d * 10 / \<bar>d\<bar>)"
    by (simp add: spec_resolved_velocity_def Let_def n21 k21 sf x21)
  then have x2: "x (spec_resolved_velocity b2 b1) = 5"
    by (simp only: ten) (simp add: assms(5))
  have "y (spec_resolved_velocity b2 b1) = y (velocity b2)"
    using assms(6) by (simp add: spec_resolved_velocity_def Let_def)
  then have y2: "y (spec_resolved_velocity b2 b1) = 0"
    by (simp add: assms(5))
  have v1: "spec_resolved_velocity b1 b2 = \<lparr>x = -5, y = 0\<rparr>"
    by (rule vector_eqI) (simp_all add: x1 y1)
  have v2: "spec_resolved_velocity b2 b1 = \<lparr>x = 5, y = 0\<rparr>"
    by (rule vector_eqI) (simp_all add: x2 y2)
  show ?thesis
    using collide_Some[OF assms(1) pos mass] by (simp add: v1 v2)
qed

theorem collide_head_on_swaps_witness:
  "coefficientOfMass (new_Ball 90 100 5 0 ''rgb(1,1,1)'' 10) = 10
   \<and> getMass (new_Ball 90 100 5 0 ''rgb(1,1,1)'' 10) = getMass (new_Ball 110 100 (-5) 0 ''rgb(2,2,2)'' 10)
   \<and> getMass (new_Ball 90 100 5 0 ''rgb(1,1,1)'' 10) \<noteq> 0
   \<and> x (position (new_Ball 90 100 5 0 ''rgb(1,1,1)'' 10))
       \<noteq> x (position (new_Ball 110 100 (-5) 0 ''rgb(2,2,2)'' 10))
   \<and> collide (new_Ball 90 100 5 0 ''rgb(1,1,1)'' 10) (new_Ball 110 100 (-5) 0 ''rgb(2,2,2)'' 10)
       = Some (new_Ball 90 100 (-5) 0 ''rgb(1,1,1)'' 10, new_Ball 110 100 5 0 ''rgb(2,2,2)'' 10)"
  using collide_head_on_swaps[of "new_Ball 90 100 5 0 ''rgb(1,1,1)'' 10"
      "new_Ball 110 100 (-5) 0 ''rgb(2,2,2)'' 10"]
  by (simp add: new_Ball_def getMass_def)

text \<open>
  C10. For two balls at distinct positions, \<open>collideBy\<close> returns the argument as it
  received it, and the receiver with a new velocity and every other field (position,
  radius, color, mass coefficient) as before.
\<close>

theorem collideBy_changes_velocity_of_receiver_only:
  assumes "position self \<noteq> position other"
    and "getMass self + getMass other \<noteq> 0"
  shows "\<exists>self' other'. collideBy self other = Some (self', other')
           \<and> other' = other
           \<and> position self' = position self
           \<and> radius self' = radius self
           \<and> color self' = color self
           \<and> coefficientOfMass self' = coefficientOfMass self
           \<and> self' = self\<lparr>velocity := velocity self'\<rparr>"
  using collideBy_Some[OF assms] by simp

theorem collideBy_changes_velocity_of_receiver_only_witness:
  "position (new_Ball 0 0 1 2 ''rgb(7,7,7)'' 10) \<noteq> position (new_Ball 3 4 (-1) 0 ''rgb(8,8,8)'' 20)
   \<and> getMass (new_Ball 0 0 1 2 ''rgb(7,7,7)'' 10) + getMass (new_Ball 3 4 (-1) 0 ''rgb(8,8,8)'' 20) \<noteq> 0
   \<and> (\<exists>self' other'.
         collideBy (new_Ball 0 0 1 2 ''rgb(7,7,7)'' 10) (new_Ball 3 4 (-1) 0 ''rgb(8,8,8)'' 20)
           = Some (self', other')
         \<and> other' = new_Ball 3 4 (-1) 0 ''rgb(8,8,8)'' 20
         \<and> position self' = \<lparr>x = 0, y = 0\<rparr>
         \<and> radius self' = 10
         \<and> color self' = ''rgb(7,7,7)''
         \<and> coefficientOfMass self' = 10)"
proof -
  have pos: "position (new_Ball 0 0 1 2 ''rgb(7,7,7)'' 10)
      \<noteq> position (new_Ball 3 4 (-1) 0 ''rgb(8,8,8)'' 20)"
    by (simp add: new_Ball_def)
  have mass: "getMass (new_Ball 0 0 1 2 ''rgb(7,7,7)'' 10)
      + getMass (new_Ball 3 4 (-1) 0 ''rgb(8,8,8)'' 20) \<noteq> 0"
    by (simp add: new_Ball_def getMass_def)
  obtain self' other' where
    "collideBy (new_Ball 0 0 1 2 ''rgb(7,7,7)'' 10) (new_Ball 3 4 (-1) 0 ''rgb(8,8,8)'' 20)
       = Some (self', other')"
    and "other' = new_Ball 3 4 (-1) 0 ''rgb(8,8,8)'' 20"
    and "position self' = position (new_Ball 0 0 1 2 ''rgb(7,7,7)'' 10)"
    and "radius self' = radius (new_Ball 0 0 1 2 ''rgb(7,7,7)'' 10)"
    and "color self' = color (new_Ball 0 0 1 2 ''rgb(7,7,7)'' 10)"
    and "coefficientOfMass self' = coefficientOfMass (new_Ball 0 0 1 2 ''rgb(7,7,7)'' 10)"
    using collideBy_changes_velocity_of_receiver_only[OF pos mass] by blast
  then show ?thesis
    using pos mass by (simp add: new_Ball_def)
qed

section \<open>Overlap correction\<close>

lemmas vector_defs = minus2d_def add_def negate_def scaleBy_def addAssign_def minusAssign_def
  innerProduct_def magnitudeSquare_def

lemmas solver_defs = roots_def numberOfRealRoots_def delta_def divide_js_def plus_js_def
  minus_js_def Let_def

lemma sqrt_of_product: "0 \<le> r \<Longrightarrow> s = r * r \<Longrightarrow> sqrt s = r"
  by simp

lemma deoverlap_rewound:
  "deoverlap b1 b2 =
     fold deoverlap_advance (roots (deoverlap_qe (rewound b1) (rewound b2)))
       (rewound b1, rewound b2)"
  by (simp add: deoverlap_def rewound_def Let_def)

lemma fold_deoverlap_advance_rejected:
  "(\<forall>t. Some t \<in> set rs \<longrightarrow> t \<le> -1 \<or> 1 \<le> t) \<Longrightarrow> fold deoverlap_advance rs s = s"
proof (induction rs)
  case Nil
  show ?case by simp
next
  case (Cons r rs)
  have "deoverlap_advance r s = s"
  proof (cases r)
    case None
    then show ?thesis by (simp add: deoverlap_advance_def)
  next
    case (Some t)
    with Cons.prems have "t \<le> -1 \<or> 1 \<le> t" by simp
    with Some show ?thesis by (auto simp add: deoverlap_advance_def)
  qed
  with Cons show ?case by simp
qed

text \<open>
  C1. The quadratic of \<open>deoverlap\<close> at two balls of radius 14 that met head-on: its
  constant term is \<open>|dx|\<^sup>2 - (r1 + r2)\<close>, 996, where the claim has
  \<open>|dx|\<^sup>2 - (r1 + r2)\<^sup>2\<close>, 240. The quadratic of the code has no real root and the balls
  stay one tick back; the quadratic of the claim has the root 6/7 between -1 and 1.
\<close>

theorem deoverlap_constant_term_at_head_on_pair:
  "c (deoverlap_qe (rewound (new_Ball 107 100 7 0 ''rgb(1,2,3)'' 14))
        (rewound (new_Ball 125 100 (-7) 0 ''rgb(4,5,6)'' 14))) = 996
   \<and> deoverlap_qe (rewound (new_Ball 107 100 7 0 ''rgb(1,2,3)'' 14))
        (rewound (new_Ball 125 100 (-7) 0 ''rgb(4,5,6)'' 14)) = \<lparr>a = 196, b = -448, c = 996\<rparr>
   \<and> magnitudeSquare (minus2d (position (rewound (new_Ball 107 100 7 0 ''rgb(1,2,3)'' 14)))
                        (position (rewound (new_Ball 125 100 (-7) 0 ''rgb(4,5,6)'' 14))))
       - (radius (new_Ball 107 100 7 0 ''rgb(1,2,3)'' 14)
          + radius (new_Ball 125 100 (-7) 0 ''rgb(4,5,6)'' 14))\<^sup>2 = 240
   \<and> roots \<lparr>a = 196, b = -448, c = 996\<rparr> = []
   \<and> roots \<lparr>a = 196, b = -448, c = 240\<rparr> = [Some (10 / 7), Some (6 / 7)]
   \<and> deoverlap (new_Ball 107 100 7 0 ''rgb(1,2,3)'' 14) (new_Ball 125 100 (-7) 0 ''rgb(4,5,6)'' 14)
       = (new_Ball 100 100 7 0 ''rgb(1,2,3)'' 14, new_Ball 132 100 (-7) 0 ''rgb(4,5,6)'' 14)"
proof -
  have qe: "deoverlap_qe (rewound (new_Ball 107 100 7 0 ''rgb(1,2,3)'' 14))
        (rewound (new_Ball 125 100 (-7) 0 ''rgb(4,5,6)'' 14)) = \<lparr>a = 196, b = -448, c = 996\<rparr>"
    by (simp add: deoverlap_qe_def rewound_def new_Ball_def vector_defs Let_def)
  have none: "roots \<lparr>a = 196, b = -448, c = 996\<rparr> = []"
    by (simp add: solver_defs)
  have "sqrt 12544 = 112"
    by (rule sqrt_of_product) simp_all
  then have two: "roots \<lparr>a = 196, b = -448, c = 240\<rparr> = [Some (10 / 7), Some (6 / 7)]"
    by (simp add: solver_defs)
  have claimed: "magnitudeSquare (minus2d (position (rewound (new_Ball 107 100 7 0 ''rgb(1,2,3)'' 14)))
                        (position (rewound (new_Ball 125 100 (-7) 0 ''rgb(4,5,6)'' 14))))
       - (radius (new_Ball 107 100 7 0 ''rgb(1,2,3)'' 14)
          + radius (new_Ball 125 100 (-7) 0 ''rgb(4,5,6)'' 14))\<^sup>2 = 240"
    by (simp add: rewound_def new_Ball_def vector_defs)
  have result: "deoverlap (new_Ball 107 100 7 0 ''rgb(1,2,3)'' 14)
        (new_Ball 125 100 (-7) 0 ''rgb(4,5,6)'' 14)
       = (new_Ball 100 100 7 0 ''rgb(1,2,3)'' 14, new_Ball 132 100 (-7) 0 ''rgb(4,5,6)'' 14)"
    by (simp add: deoverlap_rewound qe none) (simp add: rewound_def new_Ball_def vector_defs)
  show ?thesis
    by (simp add: qe none two claimed result)
qed

text \<open>
  C2. Two overlapping balls of radius 10 and 11: \<open>deoverlap\<close> finds the roots 1 and
  1/4, accepts 1/4 and advances the first ball by a quarter of its velocity from the
  rewound frame. The centers are then 4 apart; the radii sum to 21.
\<close>

theorem deoverlap_accepted_root_at_overlapping_pair:
  "distanceTo (position (new_Ball 101 100 (-4) 0 ''rgb(1,2,3)'' 10))
       (position (new_Ball 100 100 0 0 ''rgb(4,5,6)'' 11)) = 1
   \<and> roots (deoverlap_qe (rewound (new_Ball 101 100 (-4) 0 ''rgb(1,2,3)'' 10))
              (rewound (new_Ball 100 100 0 0 ''rgb(4,5,6)'' 11))) = [Some 1, Some (1 / 4)]
   \<and> deoverlap (new_Ball 101 100 (-4) 0 ''rgb(1,2,3)'' 10) (new_Ball 100 100 0 0 ''rgb(4,5,6)'' 11)
       = (new_Ball 104 100 (-4) 0 ''rgb(1,2,3)'' 10, new_Ball 100 100 0 0 ''rgb(4,5,6)'' 11)
   \<and> distanceTo (position (new_Ball 104 100 (-4) 0 ''rgb(1,2,3)'' 10))
       (position (new_Ball 100 100 0 0 ''rgb(4,5,6)'' 11)) = 4
   \<and> radius (new_Ball 101 100 (-4) 0 ''rgb(1,2,3)'' 10)
       + radius (new_Ball 100 100 0 0 ''rgb(4,5,6)'' 11) = 21"
proof -
  have qe: "deoverlap_qe (rewound (new_Ball 101 100 (-4) 0 ''rgb(1,2,3)'' 10))
      (rewound (new_Ball 100 100 0 0 ''rgb(4,5,6)'' 11)) = \<lparr>a = 16, b = -20, c = 4\<rparr>"
    by (simp add: deoverlap_qe_def rewound_def new_Ball_def vector_defs Let_def)
  have "sqrt 144 = 12"
    by (rule sqrt_of_product) simp_all
  then have rs: "roots \<lparr>a = 16, b = -20, c = 4\<rparr> = [Some 1, Some (1 / 4)]"
    by (simp add: solver_defs)
  have result: "deoverlap (new_Ball 101 100 (-4) 0 ''rgb(1,2,3)'' 10)
      (new_Ball 100 100 0 0 ''rgb(4,5,6)'' 11)
       = (new_Ball 104 100 (-4) 0 ''rgb(1,2,3)'' 10, new_Ball 100 100 0 0 ''rgb(4,5,6)'' 11)"
    by (simp add: deoverlap_rewound qe rs)
      (simp add: deoverlap_advance_def rewound_def new_Ball_def vector_defs)
  have before: "distanceTo (position (new_Ball 101 100 (-4) 0 ''rgb(1,2,3)'' 10))
       (position (new_Ball 100 100 0 0 ''rgb(4,5,6)'' 11)) = 1"
    by (simp add: distanceTo_def norm2d_def magnitudeSquare_def innerProduct_def new_Ball_def)
  have after: "distanceTo (position (new_Ball 104 100 (-4) 0 ''rgb(1,2,3)'' 10))
       (position (new_Ball 100 100 0 0 ''rgb(4,5,6)'' 11)) = 4"
    by (simp add: distanceTo_def norm2d_def magnitudeSquare_def innerProduct_def new_Ball_def)
  have radii: "radius (new_Ball 101 100 (-4) 0 ''rgb(1,2,3)'' 10)
       + radius (new_Ball 100 100 0 0 ''rgb(4,5,6)'' 11) = 21"
    by (simp add: new_Ball_def)
  show ?thesis
    by (simp add: qe rs result before after radii)
qed

lemma minusAssign_minus2d: "minusAssign v w = minus2d v w"
  by (simp add: minusAssign_def minus2d_def add_def negate_def)

text \<open>
  C7, as the code has it. When the quadratic has no real root, or no root lies
  strictly between -1 and 1, \<open>deoverlap\<close> advances nothing: it returns both balls one
  tick of their velocity back from where the integration step had put them, with
  every other field unchanged.
\<close>

theorem deoverlap_without_accepted_root:
  assumes "numberOfRealRoots (deoverlap_qe (rewound b1) (rewound b2)) = 0
         \<or> (\<forall>t. Some t \<in> set (roots (deoverlap_qe (rewound b1) (rewound b2)))
                \<longrightarrow> t \<le> -1 \<or> 1 \<le> t)"
  shows "deoverlap b1 b2 =
           (b1\<lparr>position := minus2d (position b1) (velocity b1)\<rparr>,
            b2\<lparr>position := minus2d (position b2) (velocity b2)\<rparr>)"
proof -
  have "\<forall>t. Some t \<in> set (roots (deoverlap_qe (rewound b1) (rewound b2)))
          \<longrightarrow> t \<le> -1 \<or> 1 \<le> t"
    using assms by (auto simp add: roots_def Let_def)
  then have "deoverlap b1 b2 = (rewound b1, rewound b2)"
    by (simp add: deoverlap_rewound fold_deoverlap_advance_rejected)
  then show ?thesis
    by (simp add: rewound_def minusAssign_minus2d)
qed

theorem deoverlap_without_accepted_root_witness:
  "numberOfRealRoots (deoverlap_qe (rewound (new_Ball 30 40 3 4 ''rgb(1,2,3)'' 10))
                        (rewound (new_Ball 36 48 0 0 ''rgb(4,5,6)'' 10))) = 0
   \<and> deoverlap (new_Ball 30 40 3 4 ''rgb(1,2,3)'' 10) (new_Ball 36 48 0 0 ''rgb(4,5,6)'' 10)
       = (new_Ball 27 36 3 4 ''rgb(1,2,3)'' 10, new_Ball 36 48 0 0 ''rgb(4,5,6)'' 10)"
proof -
  have qe: "deoverlap_qe (rewound (new_Ball 30 40 3 4 ''rgb(1,2,3)'' 10))
      (rewound (new_Ball 36 48 0 0 ''rgb(4,5,6)'' 10)) = \<lparr>a = 25, b = -75, c = 205\<rparr>"
    by (simp add: deoverlap_qe_def rewound_def new_Ball_def vector_defs Let_def)
  have none: "numberOfRealRoots \<lparr>a = 25, b = -75, c = 205\<rparr> = 0"
    by (simp add: numberOfRealRoots_def delta_def)
  show ?thesis
    using deoverlap_without_accepted_root[of "new_Ball 30 40 3 4 ''rgb(1,2,3)'' 10"
        "new_Ball 36 48 0 0 ''rgb(4,5,6)'' 10"]
    by (simp add: qe none) (simp add: new_Ball_def minus2d_def add_def negate_def)
qed

text \<open>
  The claim as stated fails: two overlapping balls whose quadratic has no real root are
  not where the integration step had put them after \<open>deoverlap\<close>.
\<close>

theorem deoverlap_no_root_counterexample:
  "distanceTo (position (new_Ball 30 40 3 4 ''rgb(1,2,3)'' 10))
       (position (new_Ball 36 48 0 0 ''rgb(4,5,6)'' 10))
     < radius (new_Ball 30 40 3 4 ''rgb(1,2,3)'' 10) + radius (new_Ball 36 48 0 0 ''rgb(4,5,6)'' 10)
   \<and> numberOfRealRoots (deoverlap_qe (rewound (new_Ball 30 40 3 4 ''rgb(1,2,3)'' 10))
                        (rewound (new_Ball 36 48 0 0 ''rgb(4,5,6)'' 10))) = 0
   \<and> position (new_Ball 30 40 3 4 ''rgb(1,2,3)'' 10) = \<lparr>x = 30, y = 40\<rparr>
   \<and> position (fst (deoverlap (new_Ball 30 40 3 4 ''rgb(1,2,3)'' 10)
                       (new_Ball 36 48 0 0 ''rgb(4,5,6)'' 10))) = \<lparr>x = 27, y = 36\<rparr>
   \<and> position (fst (deoverlap (new_Ball 30 40 3 4 ''rgb(1,2,3)'' 10)
                       (new_Ball 36 48 0 0 ''rgb(4,5,6)'' 10)))
       \<noteq> position (new_Ball 30 40 3 4 ''rgb(1,2,3)'' 10)"
proof -
  have qe: "deoverlap_qe (rewound (new_Ball 30 40 3 4 ''rgb(1,2,3)'' 10))
      (rewound (new_Ball 36 48 0 0 ''rgb(4,5,6)'' 10)) = \<lparr>a = 25, b = -75, c = 205\<rparr>"
    by (simp add: deoverlap_qe_def rewound_def new_Ball_def vector_defs Let_def)
  have none: "numberOfRealRoots \<lparr>a = 25, b = -75, c = 205\<rparr> = 0"
    by (simp add: numberOfRealRoots_def delta_def)
  then have rs: "roots \<lparr>a = 25, b = -75, c = 205\<rparr> = []"
    by (simp add: roots_def)
  have result: "deoverlap (new_Ball 30 40 3 4 ''rgb(1,2,3)'' 10) (new_Ball 36 48 0 0 ''rgb(4,5,6)'' 10)
       = (new_Ball 27 36 3 4 ''rgb(1,2,3)'' 10, new_Ball 36 48 0 0 ''rgb(4,5,6)'' 10)"
    by (simp add: deoverlap_rewound qe rs) (simp add: rewound_def new_Ball_def vector_defs)
  have "sqrt 100 = 10"
    by (rule sqrt_of_product) simp_all
  then have near: "distanceTo (position (new_Ball 30 40 3 4 ''rgb(1,2,3)'' 10))
       (position (new_Ball 36 48 0 0 ''rgb(4,5,6)'' 10)) = 10"
    by (simp add: distanceTo_def norm2d_def magnitudeSquare_def innerProduct_def new_Ball_def)
  show ?thesis
    by (simp add: qe none result near) (simp add: new_Ball_def)
qed

section \<open>Zero relative velocity\<close>

lemma spec_resolved_velocity_same_velocity:
  "velocity self = velocity other \<Longrightarrow> spec_resolved_velocity self other = velocity self"
  by (rule vector_eqI) (simp_all add: spec_resolved_velocity_def Let_def innerProduct_def)

lemma deoverlap_qe_same_velocity:
  assumes "velocity b1 = velocity b2"
  shows "a (deoverlap_qe (rewound b1) (rewound b2)) = 0"
    and "b (deoverlap_qe (rewound b1) (rewound b2)) = 0"
  using assms
  by (simp_all add: deoverlap_qe_def rewound_def Let_def magnitudeSquare_def innerProduct_def)

lemma roots_degenerate: "a q = 0 \<Longrightarrow> b q = 0 \<Longrightarrow> roots q = [None]"
  by (simp add: solver_defs)

text \<open>
  C9, as the code has it. For a colliding pair with zero relative velocity the
  quadratic of \<open>deoverlap\<close> has \<open>a = 0\<close> and \<open>b = 0\<close>, so \<open>roots\<close> divides \<open>-b\<close> by
  \<open>2a = 0\<close> and returns that one quotient, which is not finite. The loop of
  \<open>deoverlap\<close> rejects it and advances nothing, so both balls are left one tick of
  their velocity back; \<open>collisionDetect\<close> then runs \<open>collide\<close> on the pair as
  \<open>deoverlap\<close> left it, and gives both balls the new color.
\<close>

theorem zero_relative_velocity_pair:
  assumes "i \<noteq> j" and "i < length balls" and "j < length balls"
    and "velocity (balls ! i) = velocity (balls ! j)"
    and "distanceTo (position (balls ! i)) (position (balls ! j))
           < radius (balls ! i) + radius (balls ! j)"
  shows "a (deoverlap_qe (rewound (balls ! i)) (rewound (balls ! j))) = 0
       \<and> divide_js (- b (deoverlap_qe (rewound (balls ! i)) (rewound (balls ! j))))
            (2 * a (deoverlap_qe (rewound (balls ! i)) (rewound (balls ! j)))) = None
       \<and> roots (deoverlap_qe (rewound (balls ! i)) (rewound (balls ! j))) = [None]
       \<and> deoverlap (balls ! i) (balls ! j)
           = ((balls ! i)\<lparr>position := minus2d (position (balls ! i)) (velocity (balls ! i))\<rparr>,
              (balls ! j)\<lparr>position := minus2d (position (balls ! j)) (velocity (balls ! j))\<rparr>)
       \<and> collisionDetect_body rgb i j (balls, n)
           = do {
               (b1', b2') \<leftarrow> collide (rewound (balls ! i)) (rewound (balls ! j));
               Some (balls[i := b1'\<lparr>color := rgb n\<rparr>, j := b2'\<lparr>color := rgb n\<rparr>], Suc n)
             }"
proof -
  let ?qe = "deoverlap_qe (rewound (balls ! i)) (rewound (balls ! j))"
  have a0: "a ?qe = 0" and b0: "b ?qe = 0"
    using assms(4) by (rule deoverlap_qe_same_velocity)+
  have rs: "roots ?qe = [None]"
    using a0 b0 by (rule roots_degenerate)
  have rew: "deoverlap (balls ! i) (balls ! j) = (rewound (balls ! i), rewound (balls ! j))"
    by (simp add: deoverlap_rewound rs deoverlap_advance_def)
  have body: "collisionDetect_body rgb i j (balls, n)
           = do {
               (b1', b2') \<leftarrow> collide (rewound (balls ! i)) (rewound (balls ! j));
               Some (balls[i := b1'\<lparr>color := rgb n\<rparr>, j := b2'\<lparr>color := rgb n\<rparr>], Suc n)
             }"
    using assms(1,5) by (simp add: collisionDetect_body_def rew Let_def)
  have quotient: "divide_js (- b ?qe) (2 * a ?qe) = None"
    by (simp add: a0 divide_js_def)
  show ?thesis
    using a0 quotient rs rew body
    by (simp add: rewound_def minusAssign_minus2d)
qed

theorem zero_relative_velocity_pair_witness:
  "roots (deoverlap_qe (rewound (new_Ball 100 100 3 0 ''rgb(1,2,3)'' 10))
            (rewound (new_Ball 105 100 3 0 ''rgb(4,5,6)'' 10))) = [None]
   \<and> deoverlap (new_Ball 100 100 3 0 ''rgb(1,2,3)'' 10) (new_Ball 105 100 3 0 ''rgb(4,5,6)'' 10)
       = (new_Ball 97 100 3 0 ''rgb(1,2,3)'' 10, new_Ball 102 100 3 0 ''rgb(4,5,6)'' 10)
   \<and> collisionDetect_body (\<lambda>k. ''rgb(7,8,9)'') 0 1
         ([new_Ball 100 100 3 0 ''rgb(1,2,3)'' 10, new_Ball 105 100 3 0 ''rgb(4,5,6)'' 10], 0)
       = Some ([new_Ball 97 100 3 0 ''rgb(7,8,9)'' 10, new_Ball 102 100 3 0 ''rgb(7,8,9)'' 10], 1)"
proof -
  let ?b1 = "new_Ball 100 100 3 0 ''rgb(1,2,3)'' 10"
  let ?b2 = "new_Ball 105 100 3 0 ''rgb(4,5,6)'' 10"
  have "sqrt 25 = 5"
    by (rule sqrt_of_product) simp_all
  then have near: "distanceTo (position ([?b1, ?b2] ! 0)) (position ([?b1, ?b2] ! 1))
      < radius ([?b1, ?b2] ! 0) + radius ([?b1, ?b2] ! 1)"
    by (simp add: distanceTo_def norm2d_def magnitudeSquare_def innerProduct_def new_Ball_def)
  have same: "velocity ([?b1, ?b2] ! 0) = velocity ([?b1, ?b2] ! 1)"
    by (simp add: new_Ball_def)
  have r1: "rewound ?b1 = new_Ball 97 100 3 0 ''rgb(1,2,3)'' 10"
    and r2: "rewound ?b2 = new_Ball 102 100 3 0 ''rgb(4,5,6)'' 10"
    by (simp_all add: rewound_def new_Ball_def minusAssign_def)
  have "collide (rewound ?b1) (rewound ?b2)
      = Some ((rewound ?b1)\<lparr>velocity := spec_resolved_velocity (rewound ?b1) (rewound ?b2)\<rparr>,
              (rewound ?b2)\<lparr>velocity := spec_resolved_velocity (rewound ?b2) (rewound ?b1)\<rparr>)"
    by (rule collide_Some) (simp_all add: rewound_def new_Ball_def getMass_def minusAssign_def)
  moreover have "spec_resolved_velocity (rewound ?b1) (rewound ?b2) = velocity (rewound ?b1)"
    by (rule spec_resolved_velocity_same_velocity) (simp add: rewound_def new_Ball_def)
  moreover have "spec_resolved_velocity (rewound ?b2) (rewound ?b1) = velocity (rewound ?b2)"
    by (rule spec_resolved_velocity_same_velocity) (simp add: rewound_def new_Ball_def)
  ultimately have resolved: "collide (rewound ?b1) (rewound ?b2) = Some (rewound ?b1, rewound ?b2)"
    by simp
  have "roots (deoverlap_qe (rewound ?b1) (rewound ?b2)) = [None]
      \<and> deoverlap ?b1 ?b2
          = (?b1\<lparr>position := minus2d (position ?b1) (velocity ?b1)\<rparr>,
             ?b2\<lparr>position := minus2d (position ?b2) (velocity ?b2)\<rparr>)
      \<and> collisionDetect_body (\<lambda>k. ''rgb(7,8,9)'') 0 1 ([?b1, ?b2], 0)
          = Some ([(rewound ?b1)\<lparr>color := ''rgb(7,8,9)''\<rparr>,
                   (rewound ?b2)\<lparr>color := ''rgb(7,8,9)''\<rparr>], Suc 0)"
    using zero_relative_velocity_pair[of 0 1 "[?b1, ?b2]" "\<lambda>k. ''rgb(7,8,9)''" 0, OF _ _ _ same near]
    by (simp add: resolved)
  then show ?thesis
    by (simp add: r1 r2) (simp add: new_Ball_def minus2d_def add_def negate_def)
qed

text \<open>
  The claim as stated fails: for two overlapping balls with the same velocity, \<open>roots\<close>
  divides by zero, and the balls are not where they were before \<open>deoverlap\<close> ran.
\<close>

theorem zero_relative_velocity_counterexample:
  "velocity (new_Ball 100 100 3 0 ''rgb(1,2,3)'' 10) = velocity (new_Ball 105 100 3 0 ''rgb(4,5,6)'' 10)
   \<and> a (deoverlap_qe (rewound (new_Ball 100 100 3 0 ''rgb(1,2,3)'' 10))
          (rewound (new_Ball 105 100 3 0 ''rgb(4,5,6)'' 10))) = 0
   \<and> roots (deoverlap_qe (rewound (new_Ball 100 100 3 0 ''rgb(1,2,3)'' 10))
            (rewound (new_Ball 105 100 3 0 ''rgb(4,5,6)'' 10)))
       = [divide_js 0 0]
   \<and> divide_js 0 0 = None
   \<and> position (new_Ball 100 100 3 0 ''rgb(1,2,3)'' 10) = \<lparr>x = 100, y = 100\<rparr>
   \<and> position (fst (deoverlap (new_Ball 100 100 3 0 ''rgb(1,2,3)'' 10)
                       (new_Ball 105 100 3 0 ''rgb(4,5,6)'' 10))) = \<lparr>x = 97, y = 100\<rparr>
   \<and> position (new_Ball 105 100 3 0 ''rgb(4,5,6)'' 10) = \<lparr>x = 105, y = 100\<rparr>
   \<and> position (snd (deoverlap (new_Ball 100 100 3 0 ''rgb(1,2,3)'' 10)
                       (new_Ball 105 100 3 0 ''rgb(4,5,6)'' 10))) = \<lparr>x = 102, y = 100\<rparr>
   \<and> position (fst (deoverlap (new_Ball 100 100 3 0 ''rgb(1,2,3)'' 10)
                       (new_Ball 105 100 3 0 ''rgb(4,5,6)'' 10)))
       \<noteq> position (new_Ball 100 100 3 0 ''rgb(1,2,3)'' 10)"
proof -
  have qe: "deoverlap_qe (rewound (new_Ball 100 100 3 0 ''rgb(1,2,3)'' 10))
      (rewound (new_Ball 105 100 3 0 ''rgb(4,5,6)'' 10)) = \<lparr>a = 0, b = 0, c = 5\<rparr>"
    by (simp add: deoverlap_qe_def rewound_def new_Ball_def vector_defs Let_def)
  have rs: "roots \<lparr>a = 0, b = 0, c = 5\<rparr> = [None]"
    by (simp add: solver_defs)
  have result: "deoverlap (new_Ball 100 100 3 0 ''rgb(1,2,3)'' 10)
      (new_Ball 105 100 3 0 ''rgb(4,5,6)'' 10)
       = (new_Ball 97 100 3 0 ''rgb(1,2,3)'' 10, new_Ball 102 100 3 0 ''rgb(4,5,6)'' 10)"
    by (simp add: deoverlap_rewound qe rs)
      (simp add: deoverlap_advance_def rewound_def new_Ball_def vector_defs)
  show ?thesis
    by (simp add: qe rs result) (simp add: new_Ball_def divide_js_def)
qed

section \<open>Integration step\<close>

text \<open>
  C8, as the code has it. \<open>update\<close> tests the position the ball has before the step:
  when its right edge \<open>position.x + radius\<close> is at or beyond \<open>width\<close> the \<open>x\<close> component
  of the velocity is negated, and likewise the \<open>y\<close> component when \<open>position.y +
  radius\<close> is at or beyond \<open>height\<close>. The position is never clipped: it is advanced by
  the velocity as the tests left it. Radius, color and mass coefficient are unchanged.
\<close>

theorem update_reflects_then_advances:
  "(width \<le> x (position ball) + radius ball
      \<longrightarrow> x (velocity (update width height ball)) = - x (velocity ball))
   \<and> (height \<le> y (position ball) + radius ball
      \<longrightarrow> y (velocity (update width height ball)) = - y (velocity ball))
   \<and> position (update width height ball)
       = add (position ball) (velocity (update width height ball))
   \<and> radius (update width height ball) = radius ball
   \<and> color (update width height ball) = color ball
   \<and> coefficientOfMass (update width height ball) = coefficientOfMass ball"
  by (simp add: update_def Let_def addAssign_def add_def)

theorem update_reflects_then_advances_witness:
  "(100::real) \<le> x (position (new_Ball 95 50 7 2 ''rgb(1,2,3)'' 10))
                  + radius (new_Ball 95 50 7 2 ''rgb(1,2,3)'' 10)
   \<and> x (velocity (update 100 100 (new_Ball 95 50 7 2 ''rgb(1,2,3)'' 10))) = -7
   \<and> position (update 100 100 (new_Ball 95 50 7 2 ''rgb(1,2,3)'' 10)) = \<lparr>x = 88, y = 52\<rparr>"
proof -
  have edge: "(100::real) \<le> x (position (new_Ball 95 50 7 2 ''rgb(1,2,3)'' 10))
                  + radius (new_Ball 95 50 7 2 ''rgb(1,2,3)'' 10)"
    by (simp add: new_Ball_def)
  have vy: "y (velocity (update 100 100 (new_Ball 95 50 7 2 ''rgb(1,2,3)'' 10))) = 2"
    by (simp add: update_def Let_def new_Ball_def)
  have vx: "x (velocity (update 100 100 (new_Ball 95 50 7 2 ''rgb(1,2,3)'' 10))) = -7"
    using update_reflects_then_advances[of 100 "new_Ball 95 50 7 2 ''rgb(1,2,3)'' 10" 100] edge
    by (simp add: new_Ball_def)
  have "position (update 100 100 (new_Ball 95 50 7 2 ''rgb(1,2,3)'' 10))
      = add (position (new_Ball 95 50 7 2 ''rgb(1,2,3)'' 10))
          (velocity (update 100 100 (new_Ball 95 50 7 2 ''rgb(1,2,3)'' 10)))"
    using update_reflects_then_advances[of 100 "new_Ball 95 50 7 2 ''rgb(1,2,3)'' 10" 100]
    by blast
  then have "position (update 100 100 (new_Ball 95 50 7 2 ''rgb(1,2,3)'' 10)) = \<lparr>x = 88, y = 52\<rparr>"
    by (simp add: add_def vx vy) (simp add: new_Ball_def)
  then show ?thesis
    using edge vx by simp
qed

text \<open>
  The claim as stated fails: a ball whose next position puts its right edge beyond
  \<open>x = width\<close>, while its present right edge is inside, keeps its velocity and is
  advanced across the boundary.
\<close>

theorem update_next_position_counterexample:
  "x (position (new_Ball 85 50 7 0 ''rgb(1,2,3)'' 10)) + radius (new_Ball 85 50 7 0 ''rgb(1,2,3)'' 10)
     < (100::real)
   \<and> (100::real) < x (position (new_Ball 85 50 7 0 ''rgb(1,2,3)'' 10))
                   + x (velocity (new_Ball 85 50 7 0 ''rgb(1,2,3)'' 10))
                   + radius (new_Ball 85 50 7 0 ''rgb(1,2,3)'' 10)
   \<and> update 100 100 (new_Ball 85 50 7 0 ''rgb(1,2,3)'' 10) = new_Ball 92 50 7 0 ''rgb(1,2,3)'' 10
   \<and> x (velocity (update 100 100 (new_Ball 85 50 7 0 ''rgb(1,2,3)'' 10)))
       \<noteq> - x (velocity (new_Ball 85 50 7 0 ''rgb(1,2,3)'' 10))"
  by (simp add: update_def Let_def new_Ball_def addAssign_def)

end
